theory Spec2Isabelle
  imports Main
begin

section \<open>Values that cross the driver boundary\<close>

text \<open>
  A JavaScript \<open>Date\<close> as the services build it: the invalid date (time value NaN), a date
  from a time value in milliseconds, or the date the seven-argument constructor builds from
  local-time fields (year, month index, day, hours, minutes, seconds, milliseconds).
\<close>

datatype jsdate = InvalidDate | EpochMs int | LocalFields int int int int int int int

text \<open>The driver's \<open>DateTime\<close> object, the value of the store's \<open>datetime()\<close>.\<close>

datatype DateTime =
  DateTime (dt_year: int) (dt_month: int) (dt_day: int) (dt_hour: int) (dt_minute: int)
    (dt_second: int) (dt_nanosecond: int)

text \<open>
  What a date property of a node reads as in the service: missing (\<open>undefined\<close>), a
  JavaScript date, a driver \<open>DateTime\<close>, or a string.
\<close>

datatype dateValue = DvAbsent | DvDate jsdate | DvDateTime DateTime | DvString string

text \<open>
  The surroundings of one service call: the clock read by \<open>new Date()\<close>, the host's
  \<open>Date.parse\<close> (\<open>None\<close> is NaN), the driver's \<open>DateTime.toString\<close>, and the value of
  the store's \<open>datetime()\<close>.
\<close>

record env =
  js_now :: jsdate
  date_parse :: "string \<Rightarrow> int option"
  dt_toString :: "DateTime \<Rightarrow> string"
  db_datetime :: DateTime

datatype error =
  Error string
  | ApolloError string "string option" "error option"

type_synonym 'a result = "error + 'a"

subsection \<open>JavaScript operators the services use\<close>

text \<open>\<open>x || d\<close> on an optional string: \<open>undefined\<close> and the empty string are falsy.\<close>

definition or_else :: "string option \<Rightarrow> string \<Rightarrow> string" where
  "or_else x d = (case x of None \<Rightarrow> d | Some s \<Rightarrow> if s = [] then d else s)"

text \<open>\<open>x ?? d\<close>: only a missing value takes the default.\<close>

definition nullish :: "'a option \<Rightarrow> 'a \<Rightarrow> 'a" where
  "nullish x d = (case x of None \<Rightarrow> d | Some v \<Rightarrow> v)"

text \<open>
  A JavaScript string whose characters matter is the list of its UTF-16 code units, each a
  number; \<open>js\<close> writes one with a literal. Tweet and comment texts are such strings.
  Identifiers, names and messages are only ever compared or passed on, and stay \<open>string\<close>.
\<close>

type_synonym jsstring = "nat list"

definition js :: "string \<Rightarrow> jsstring" where
  "js s = map of_char s"

text \<open>
  \<open>String.prototype.trim\<close> strips white space and line terminators from both ends: TAB,
  LF, VT, FF, CR, SP, NBSP, U+1680, U+2000 to U+200A, LS (U+2028), PS (U+2029), U+202F,
  U+205F, U+3000 and the byte order mark U+FEFF.
\<close>

definition is_ws :: "nat \<Rightarrow> bool" where
  "is_ws c =
     (c \<in> {9, 10, 11, 12, 13, 32, 160, 5760, 8232, 8233, 8239, 8287, 12288, 65279}
      \<or> (8192 \<le> c \<and> c \<le> 8202))"

definition trim :: "jsstring \<Rightarrow> jsstring" where
  "trim s = rev (dropWhile is_ws (rev (dropWhile is_ws s)))"

text \<open>Number to integer as the \<open>Date\<close> constructor does it: towards zero.\<close>

definition trunc_div :: "int \<Rightarrow> int \<Rightarrow> int" where
  "trunc_div a b = (if a < 0 then - ((- a) div b) else a div b)"

text \<open>\<open>new Date(value)\<close> with one argument.\<close>

definition newDate :: "env \<Rightarrow> dateValue \<Rightarrow> jsdate" where
  "newDate E v =
     (case v of
        DvAbsent \<Rightarrow> InvalidDate
      | DvDate d \<Rightarrow> d
      | DvDateTime dt \<Rightarrow>
          (case date_parse E (dt_toString E dt) of None \<Rightarrow> InvalidDate | Some ms \<Rightarrow> EpochMs ms)
      | DvString s \<Rightarrow>
          (case date_parse E s of None \<Rightarrow> InvalidDate | Some ms \<Rightarrow> EpochMs ms))"

section \<open>The graph store\<close>

text \<open>
  Nodes carry the properties the node interfaces of the models declare; an optional
  property is an \<open>option\<close>. The label of a node is the table it lives in. Every node and
  relationship has an identity of the store, apart from its \<open>id\<close> property.
\<close>

record UserNode =
  u_id :: string
  u_username :: string
  u_name :: string
  u_email :: "string option"
  u_bio :: "string option"
  u_pfp :: "string option"
  u_coverPhoto :: "string option"
  u_isVerified :: "bool option"
  u_createdAt :: dateValue
  u_updatedAt :: dateValue

record TweetNode =
  t_id :: string
  t_text :: jsstring
  t_media :: "string list option"
  t_authorId :: string
  t_likesCount :: "int option"
  t_commentsCount :: "int option"
  t_retweetsCount :: "int option"
  t_createdAt :: dateValue
  t_updatedAt :: dateValue
  t_isLiked :: "bool option"

record CommentNode =
  c_id :: string
  c_text :: jsstring
  c_authorId :: string
  c_tweetId :: "string option"
  c_createdAt :: dateValue
  c_updatedAt :: dateValue
  c_isLiked :: "bool option"
  c_likesCount :: "int option"

datatype RelationshipType =
  FOLLOWS | LIKES_TWEET | LIKES_COMMENT | POSTED | COMMENTS_ON | HAS_COMMENT

record edge =
  e_id :: nat
  e_src :: nat
  e_rel :: RelationshipType
  e_dst :: nat
  e_createdAt :: dateValue

record graph =
  users :: "(nat \<times> UserNode) list"
  tweets :: "(nat \<times> TweetNode) list"
  comments :: "(nat \<times> CommentNode) list"
  edges :: "edge list"
  next_id :: nat

text \<open>Node patterns with a property map: \<open>(u:User {id: $x})\<close> and its siblings.\<close>

definition users_by_id :: "graph \<Rightarrow> string \<Rightarrow> (nat \<times> UserNode) list" where
  "users_by_id g x = filter (\<lambda>(n, u). u_id u = x) (users g)"

definition tweets_by_id :: "graph \<Rightarrow> string \<Rightarrow> (nat \<times> TweetNode) list" where
  "tweets_by_id g x = filter (\<lambda>(n, t). t_id t = x) (tweets g)"

definition comments_by_id :: "graph \<Rightarrow> string \<Rightarrow> (nat \<times> CommentNode) list" where
  "comments_by_id g x = filter (\<lambda>(n, c). c_id c = x) (comments g)"

text \<open>Relationship patterns with a type: \<open>-[:POSTED]->\<close>.\<close>

definition rels :: "graph \<Rightarrow> RelationshipType \<Rightarrow> edge list" where
  "rels g ty = filter (\<lambda>e. e_rel e = ty) (edges g)"

text \<open>
  The pattern \<open>(x)<-[:POSTED]-(u:User)\<close> for a bound node \<open>x\<close>: one row for every POSTED
  relationship into \<open>x\<close> that starts at a User node.
\<close>

definition posters :: "graph \<Rightarrow> nat \<Rightarrow> UserNode list" where
  "posters g x = [u. r \<leftarrow> rels g POSTED, e_dst r = x, (un, u) \<leftarrow> users g, un = e_src r]"

text \<open>
  A write transaction commits what its work did when the work returns, and rolls back to
  the state it started from when the work throws. \<open>executeWrite\<close> is the newer name of
  \<open>writeTransaction\<close>.
\<close>

definition writeTransaction ::
  "(graph \<Rightarrow> graph \<times> 'a result) \<Rightarrow> graph \<Rightarrow> graph \<times> 'a result" where
  "writeTransaction work g =
     (case work g of (g', Inl e) \<Rightarrow> (g, Inl e) | (g', Inr v) \<Rightarrow> (g', Inr v))"

definition executeWrite ::
  "(graph \<Rightarrow> graph \<times> 'a result) \<Rightarrow> graph \<Rightarrow> graph \<times> 'a result" where
  "executeWrite work g = writeTransaction work g"

subsection \<open>ORDER BY on a date property\<close>

text \<open>
  The store orders values of different types by type, a missing value last in ascending
  order: temporal values, then strings, then null. \<open>DateTime\<close> values of one zone order by
  their fields.
\<close>

fun order_key :: "dateValue \<Rightarrow> int list" where
  "order_key (DvDateTime dt) =
     [0, dt_year dt, dt_month dt, dt_day dt, dt_hour dt, dt_minute dt, dt_second dt,
      dt_nanosecond dt]"
| "order_key (DvDate d) = [1]"
| "order_key (DvString s) = 2 # map (\<lambda>c. int (of_char c)) s"
| "order_key DvAbsent = [3]"

fun lex_less :: "int list \<Rightarrow> int list \<Rightarrow> bool" where
  "lex_less [] [] = False"
| "lex_less [] (y # ys) = True"
| "lex_less (x # xs) [] = False"
| "lex_less (x # xs) (y # ys) = (x < y \<or> (x = y \<and> lex_less xs ys))"

fun insert_desc :: "('a \<Rightarrow> dateValue) \<Rightarrow> 'a \<Rightarrow> 'a list \<Rightarrow> 'a list" where
  "insert_desc k x [] = [x]"
| "insert_desc k x (y # ys) =
     (if lex_less (order_key (k x)) (order_key (k y)) then y # insert_desc k x ys
      else x # y # ys)"

definition order_by_desc :: "('a \<Rightarrow> dateValue) \<Rightarrow> 'a list \<Rightarrow> 'a list" where
  "order_by_desc k rows = foldr (insert_desc k) rows []"


text \<open>
  Relationships created by one statement take the next identities of the store, one per
  row of the statement.
\<close>

definition add_edges ::
  "graph \<Rightarrow> (nat \<times> RelationshipType \<times> nat \<times> dateValue) list \<Rightarrow> graph" where
  "add_edges g es =
     g\<lparr>edges := edges g @
          map (\<lambda>(k, (s, ty, d, c)).
                 \<lparr>e_id = next_id g + k, e_src = s, e_rel = ty, e_dst = d, e_createdAt = c\<rparr>)
              (enumerate 0 es),
       next_id := next_id g + length es\<rparr>"

section \<open>The tweet service\<close>

record BaseUser =
  bu_id :: string
  bu_username :: string
  bu_name :: string
  bu_email :: "string option"
  bu_bio :: string
  bu_pfp :: string
  bu_coverPhoto :: "string option"
  bu_isVerified :: "bool option"
  bu_createdAt :: jsdate
  bu_updatedAt :: jsdate

text \<open>
  The \<open>Tweet\<close> object a service method returns. The list methods build it without the
  counters and without \<open>isLiked\<close>, so these fields are optional here.
\<close>

record Tweet =
  tw_id :: string
  tw_text :: jsstring
  tw_media :: "string list"
  tw_authorId :: string
  tw_createdAt :: jsdate
  tw_updatedAt :: jsdate
  tw_likesCount :: "int option"
  tw_commentsCount :: "int option"
  tw_retweetsCount :: "int option"
  tw_isLiked :: "bool option"
  tw_author :: "BaseUser option"

definition default_pfp :: string where
  "default_pfp = ''https://i.imgur.com/HeIi0wU.png''"

text \<open>
  \<open>safeParseDate\<close>: a falsy value is the current time, a \<open>Date\<close> is returned as it is, a
  driver \<open>DateTime\<close> (its fields are Integer objects, hence truthy) is rebuilt field by
  field, and a string is parsed with the current time as the fallback.
\<close>

definition safeParseDate :: "env \<Rightarrow> dateValue \<Rightarrow> jsdate" where
  "safeParseDate E dateValue =
     (case dateValue of
        DvAbsent \<Rightarrow> js_now E
      | DvDate d \<Rightarrow> d
      | DvDateTime dt \<Rightarrow>
          LocalFields (dt_year dt) (dt_month dt - 1) (dt_day dt) (dt_hour dt) (dt_minute dt)
            (dt_second dt) (trunc_div (dt_nanosecond dt) 1000000)
      | DvString s \<Rightarrow>
          (if s = [] then js_now E
           else (case date_parse E s of None \<Rightarrow> js_now E | Some ms \<Rightarrow> EpochMs ms)))"

definition mapTweet :: "env \<Rightarrow> TweetNode \<Rightarrow> UserNode \<Rightarrow> Tweet" where
  "mapTweet E tweetNode authorNode =
     \<lparr>tw_id = t_id tweetNode,
      tw_text = t_text tweetNode,
      tw_media = nullish (t_media tweetNode) [],
      tw_authorId = t_authorId tweetNode,
      tw_createdAt = safeParseDate E (t_createdAt tweetNode),
      tw_updatedAt = safeParseDate E (t_updatedAt tweetNode),
      tw_likesCount = Some (nullish (t_likesCount tweetNode) 0),
      tw_commentsCount = Some (nullish (t_commentsCount tweetNode) 0),
      tw_retweetsCount = Some (nullish (t_retweetsCount tweetNode) 0),
      tw_isLiked = Some (nullish (t_isLiked tweetNode) False),
      tw_author = Some
        \<lparr>bu_id = u_id authorNode,
         bu_username = u_username authorNode,
         bu_name = u_name authorNode,
         bu_email = Some (nullish (u_email authorNode) []),
         bu_bio = nullish (u_bio authorNode) [],
         bu_pfp = nullish (u_pfp authorNode) default_pfp,
         bu_coverPhoto = Some (nullish (u_coverPhoto authorNode) []),
         bu_isVerified = Some (nullish (u_isVerified authorNode) False),
         bu_createdAt = safeParseDate E (u_createdAt authorNode),
         bu_updatedAt = safeParseDate E (u_updatedAt authorNode)\<rparr>\<rparr>"

text \<open>
  The object literal that \<open>listTweets\<close>, \<open>listUserTweets\<close>, \<open>listLikedTweets\<close> and
  \<open>listTimelineTweets\<close> each build for a record, the same text in all four: dates go
  through \<open>new Date\<close>, the author id stands for \<open>authorId\<close>, the counters are left out.
\<close>

definition listItem :: "env \<Rightarrow> TweetNode \<Rightarrow> UserNode \<Rightarrow> Tweet" where
  "listItem E tweetNode author =
     \<lparr>tw_id = t_id tweetNode,
      tw_text = t_text tweetNode,
      tw_media = nullish (t_media tweetNode) [],
      tw_authorId = u_id author,
      tw_createdAt = newDate E (t_createdAt tweetNode),
      tw_updatedAt = newDate E (t_updatedAt tweetNode),
      tw_likesCount = None,
      tw_commentsCount = None,
      tw_retweetsCount = None,
      tw_isLiked = None,
      tw_author = Some
        \<lparr>bu_id = u_id author,
         bu_username = u_username author,
         bu_name = u_name author,
         bu_email = u_email author,
         bu_bio = or_else (u_bio author) [],
         bu_pfp = or_else (u_pfp author) default_pfp,
         bu_coverPhoto = None,
         bu_isVerified = None,
         bu_createdAt = newDate E (u_createdAt author),
         bu_updatedAt = newDate E (u_updatedAt author)\<rparr>\<rparr>"

text \<open>\<open>withSession\<close> of the tweet service: whatever the operation throws is wrapped.\<close>

definition withSession ::
  "(graph \<Rightarrow> graph \<times> 'a result) \<Rightarrow> graph \<Rightarrow> graph \<times> 'a result" where
  "withSession operation g =
     (case operation g of
        (g', Inl e) \<Rightarrow>
          (g', Inl (ApolloError ''Failed to execute database operation''
                      (Some ''DATABASE_ERROR'') (Some e)))
      | (g', Inr v) \<Rightarrow> (g', Inr v))"

subsection \<open>createTweet and fetchTweet\<close>

definition new_tweet :: "env \<Rightarrow> string \<Rightarrow> jsstring \<Rightarrow> string list \<Rightarrow> string \<Rightarrow> TweetNode" where
  "new_tweet E uuid text media authorId =
     \<lparr>t_id = uuid, t_text = text, t_media = Some media, t_authorId = authorId,
      t_likesCount = None, t_commentsCount = None, t_retweetsCount = None,
      t_createdAt = DvDateTime (db_datetime E), t_updatedAt = DvDateTime (db_datetime E),
      t_isLiked = None\<rparr>"

text \<open>
  The statement of \<open>createTweet\<close>: for every row of \<open>MATCH (u:User {id: $authorId})\<close> a
  Tweet node and a POSTED relationship are created; \<open>rand k\<close> is what \<open>randomUUID()\<close>
  returns for row \<open>k\<close>. The statement returns \<open>t, u\<close> per row.
\<close>

fun create_tweet_rows ::
  "env \<Rightarrow> (nat \<Rightarrow> string) \<Rightarrow> jsstring \<Rightarrow> string list \<Rightarrow> string \<Rightarrow> (nat \<times> UserNode) list \<Rightarrow>
   nat \<Rightarrow> graph \<Rightarrow> graph \<times> (TweetNode \<times> UserNode) list" where
  "create_tweet_rows E rand text media authorId [] k g = (g, [])"
| "create_tweet_rows E rand text media authorId ((un, u) # rows) k g =
     (let t = new_tweet E (rand k) text media authorId;
          g1 = g\<lparr>tweets := tweets g @ [(next_id g, t)],
                 edges := edges g @
                   [\<lparr>e_id = next_id g + 1, e_src = un, e_rel = POSTED, e_dst = next_id g,
                     e_createdAt = DvAbsent\<rparr>],
                 next_id := next_id g + 2\<rparr>;
          (g2, recs) = create_tweet_rows E rand text media authorId rows (Suc k) g1
      in (g2, (t, u) # recs))"

definition s_createTweet ::
  "env \<Rightarrow> (nat \<Rightarrow> string) \<Rightarrow> jsstring \<Rightarrow> string list \<Rightarrow> string \<Rightarrow> graph \<Rightarrow>
   graph \<times> (TweetNode \<times> UserNode) list" where
  "s_createTweet E rand text media authorId g =
     create_tweet_rows E rand text media authorId (users_by_id g authorId) 0 g"

definition createTweet ::
  "env \<Rightarrow> (nat \<Rightarrow> string) \<Rightarrow> jsstring \<Rightarrow> string list \<Rightarrow> string \<Rightarrow> graph \<Rightarrow> graph \<times> Tweet result" where
  "createTweet E rand text media authorId g =
     (if trim text = [] then
        (g, Inl (ApolloError ''Tweet text cannot be empty'' (Some ''INVALID_INPUT'') None))
      else
        withSession (executeWrite (\<lambda>g0.
          (case s_createTweet E rand text media authorId g0 of
             (g1, []) \<Rightarrow>
               (g1, Inl (ApolloError ''Failed to create tweet''
                           (Some ''TWEET_CREATION_ERROR'') None))
           | (g1, (tweetNode, authorNode) # _) \<Rightarrow>
               (g1, Inr (mapTweet E tweetNode authorNode))))) g)"

text \<open>\<open>MATCH (t:Tweet {id: $id})<-[r:POSTED]-(u:User) RETURN t, u\<close>\<close>

definition q_fetchTweet :: "graph \<Rightarrow> string \<Rightarrow> (TweetNode \<times> UserNode) list" where
  "q_fetchTweet g x =
     [(t, u). (tn, t) \<leftarrow> tweets_by_id g x, u \<leftarrow> posters g tn]"

definition fetchTweet :: "env \<Rightarrow> string \<Rightarrow> graph \<Rightarrow> Tweet option result" where
  "fetchTweet E x g =
     snd (withSession (\<lambda>g0.
       (case q_fetchTweet g0 x of
          [] \<Rightarrow> (g0, Inr None)
        | (tweetNode, author) # _ \<Rightarrow> (g0, Inr (Some (mapTweet E tweetNode author))))) g)"

subsection \<open>The list methods\<close>

text \<open>\<open>MATCH (t:Tweet)<-[:POSTED]-(u:User) RETURN t, u ORDER BY t.createdAt DESC\<close>\<close>

definition q_listTweets :: "graph \<Rightarrow> (TweetNode \<times> UserNode) list" where
  "q_listTweets g =
     order_by_desc (\<lambda>(t, u). t_createdAt t)
       [(t, u). (tn, t) \<leftarrow> tweets g, u \<leftarrow> posters g tn]"

definition listTweets :: "env \<Rightarrow> graph \<Rightarrow> Tweet list result" where
  "listTweets E g =
     snd (withSession (\<lambda>g0. (g0, Inr (map (\<lambda>(t, u). listItem E t u) (q_listTweets g0)))) g)"

text \<open>
  \<open>MATCH (u:User {id: $userId})-[:POSTED]->(t:Tweet) RETURN t, u ORDER BY t.createdAt DESC\<close>
\<close>

definition q_listUserTweets :: "graph \<Rightarrow> string \<Rightarrow> (TweetNode \<times> UserNode) list" where
  "q_listUserTweets g userId =
     order_by_desc (\<lambda>(t, u). t_createdAt t)
       [(t, u). (un, u) \<leftarrow> users_by_id g userId, p \<leftarrow> rels g POSTED, e_src p = un,
                (tn, t) \<leftarrow> tweets g, tn = e_dst p]"

definition listUserTweets :: "env \<Rightarrow> string \<Rightarrow> graph \<Rightarrow> Tweet list result" where
  "listUserTweets E userId g =
     snd (withSession (\<lambda>g0.
       (g0, Inr (map (\<lambda>(t, u). listItem E t u) (q_listUserTweets g0 userId)))) g)"

text \<open>
  \<open>MATCH (u:User {id: $userId})-[r:LIKES_TWEET]->(t:Tweet)<-[:POSTED]-(author:User)
  RETURN t, author ORDER BY r.createdAt DESC\<close>
\<close>

definition q_listLikedTweets :: "graph \<Rightarrow> string \<Rightarrow> (TweetNode \<times> UserNode) list" where
  "q_listLikedTweets g userId =
     map snd (order_by_desc (\<lambda>(r, row). e_createdAt r)
       [(r, (t, author)). (un, u) \<leftarrow> users_by_id g userId, r \<leftarrow> rels g LIKES_TWEET,
                e_src r = un, (tn, t) \<leftarrow> tweets g, tn = e_dst r,
                author \<leftarrow> posters g tn])"

definition listLikedTweets :: "env \<Rightarrow> string \<Rightarrow> graph \<Rightarrow> Tweet list result" where
  "listLikedTweets E userId g =
     snd (withSession (\<lambda>g0.
       (g0, Inr (map (\<lambda>(t, u). listItem E t u) (q_listLikedTweets g0 userId)))) g)"

text \<open>
  The timeline statement:
  \<^verbatim>\<open>
  MATCH (me:User {id: $userId})-[:FOLLOWS]->(following:User)
  MATCH (t:Tweet)<-[:POSTED]-(poster:User)
  WHERE (poster.id IN following.id OR poster.id = $userId)
  RETURN t, poster ORDER BY t.createdAt DESC
  \<close>
  The second MATCH runs once for every row of the first, that is once for every FOLLOWS
  relationship that leaves the user. The right-hand side of \<open>IN\<close> is a string property;
  the store reads a value that is not a list as the list of that one value.
\<close>

definition cy_in :: "string \<Rightarrow> string \<Rightarrow> bool" where
  "cy_in x v = (x \<in> set [v])"

definition q_listTimelineTweets :: "graph \<Rightarrow> string \<Rightarrow> (TweetNode \<times> UserNode) list" where
  "q_listTimelineTweets g userId =
     order_by_desc (\<lambda>(t, u). t_createdAt t)
       [(t, poster). (mn, me) \<leftarrow> users_by_id g userId, f \<leftarrow> rels g FOLLOWS, e_src f = mn,
                (fn, following) \<leftarrow> users g, fn = e_dst f,
                (tn, t) \<leftarrow> tweets g, poster \<leftarrow> posters g tn,
                cy_in (u_id poster) (u_id following) \<or> u_id poster = userId]"

definition listTimelineTweets :: "env \<Rightarrow> string \<Rightarrow> graph \<Rightarrow> Tweet list result" where
  "listTimelineTweets E userId g =
     snd (withSession (\<lambda>g0.
       (g0, Inr (map (\<lambda>(t, u). listItem E t u) (q_listTimelineTweets g0 userId)))) g)"


subsection \<open>likeTweet and unlikeTweet\<close>

text \<open>
  \<open>MATCH (u:User {id: $userId})-[r:LIKES_TWEET]->(t:Tweet {id: $tweetId}) RETURN r\<close>
\<close>

definition q_existingLike :: "graph \<Rightarrow> string \<Rightarrow> string \<Rightarrow> edge list" where
  "q_existingLike g userId tweetId =
     [r. (un, u) \<leftarrow> users_by_id g userId, r \<leftarrow> rels g LIKES_TWEET, e_src r = un,
         (tn, t) \<leftarrow> tweets_by_id g tweetId, e_dst r = tn]"

text \<open>
  \<open>MATCH (u:User {id: $userId}), (t:Tweet {id: $tweetId})
  CREATE (u)-[r:LIKES_TWEET { createdAt: datetime() }]->(t)\<close>
\<close>

definition s_likeTweet :: "env \<Rightarrow> string \<Rightarrow> string \<Rightarrow> graph \<Rightarrow> graph" where
  "s_likeTweet E userId tweetId g =
     add_edges g
       [(un, LIKES_TWEET, tn, DvDateTime (db_datetime E)).
          (un, u) \<leftarrow> users_by_id g userId, (tn, t) \<leftarrow> tweets_by_id g tweetId]"

text \<open>The input object of \<open>likeTweet\<close> and \<open>unlikeTweet\<close> has the one field \<open>tweetId\<close>.\<close>

definition likeTweet :: "env \<Rightarrow> string \<Rightarrow> string \<Rightarrow> graph \<Rightarrow> graph \<times> bool result" where
  "likeTweet E tweetId userId g =
     withSession (\<lambda>g0.
       (case writeTransaction (\<lambda>g1.
               if q_existingLike g1 userId tweetId \<noteq> [] then
                 (g1, Inl (Error ''Tweet already liked''))
               else (s_likeTweet E userId tweetId g1, Inr ())) g0 of
          (g2, Inl e) \<Rightarrow> (g2, Inl e)
        | (g2, Inr _) \<Rightarrow> (g2, Inr True))) g"

text \<open>
  \<open>MATCH (u:User {id: $userId})-[r:LIKES_TWEET]->(t:Tweet {id: $tweetId}) DELETE r\<close>
\<close>

definition s_unlikeTweet :: "string \<Rightarrow> string \<Rightarrow> graph \<Rightarrow> graph" where
  "s_unlikeTweet userId tweetId g =
     g\<lparr>edges :=
         filter (\<lambda>r. \<not> (e_rel r = LIKES_TWEET
                          \<and> e_src r \<in> set (map fst (users_by_id g userId))
                          \<and> e_dst r \<in> set (map fst (tweets_by_id g tweetId))))
           (edges g)\<rparr>"

text \<open>
  \<open>session.run\<close> of a statement that the store executes: the statement's effect, committed.
\<close>

definition session_run :: "(graph \<Rightarrow> graph) \<Rightarrow> graph \<Rightarrow> graph \<times> unit result" where
  "session_run stmt g = (stmt g, Inr ())"

definition unlikeTweet :: "string \<Rightarrow> string \<Rightarrow> graph \<Rightarrow> graph \<times> bool result" where
  "unlikeTweet tweetId userId g =
     withSession (\<lambda>g0.
       (case session_run (s_unlikeTweet userId tweetId) g0 of
          (g1, Inr _) \<Rightarrow> (g1, Inr True)
        | (g1, Inl e) \<Rightarrow> (g1, Inr False))) g"

subsection \<open>deleteTweet\<close>

text \<open>
  \<open>MATCH (t:Tweet {id: $tweetId})<-[r]-(n) DELETE r\<close>: every relationship has a start
  node, so \<open>(n)\<close> constrains nothing.
\<close>

definition s_deleteIncoming :: "string \<Rightarrow> graph \<Rightarrow> graph" where
  "s_deleteIncoming tweetId g =
     g\<lparr>edges :=
         filter (\<lambda>r. e_dst r \<notin> set (map fst (tweets_by_id g tweetId))) (edges g)\<rparr>"

text \<open>
  \<open>MATCH (t:Tweet {id: $tweetId}) DELETE t\<close>: the store refuses to delete a node that
  still has a relationship, and the transaction fails.
\<close>

definition s_deleteTweetNode :: "string \<Rightarrow> graph \<Rightarrow> graph \<times> unit result" where
  "s_deleteTweetNode tweetId g =
     (if list_ex (\<lambda>r. e_src r \<in> set (map fst (tweets_by_id g tweetId))
                     \<or> e_dst r \<in> set (map fst (tweets_by_id g tweetId))) (edges g)
      then (g, Inl (Error ''Cannot delete node, because it still has relationships''))
      else (g\<lparr>tweets := filter (\<lambda>(n, t). t_id t \<noteq> tweetId) (tweets g)\<rparr>, Inr ()))"

definition deleteTweet :: "string \<Rightarrow> graph \<Rightarrow> graph \<times> bool result" where
  "deleteTweet tweetId g =
     withSession (\<lambda>g0.
       (case writeTransaction (\<lambda>g1. s_deleteTweetNode tweetId (s_deleteIncoming tweetId g1)) g0 of
          (g2, Inr _) \<Rightarrow> (g2, Inr True)
        | (g2, Inl e) \<Rightarrow>
            (g2, Inl (ApolloError ''Failed to delete tweet'' (Some ''TWEET_DELETION_ERROR'')
                        (Some e))))) g"

subsection \<open>commentOnTweet\<close>

definition new_comment :: "env \<Rightarrow> string \<Rightarrow> jsstring \<Rightarrow> string \<Rightarrow> string option \<Rightarrow> CommentNode" where
  "new_comment E uuid text authorId tweetId =
     \<lparr>c_id = uuid, c_text = text, c_authorId = authorId, c_tweetId = tweetId,
      c_createdAt = DvDateTime (db_datetime E), c_updatedAt = DvDateTime (db_datetime E),
      c_isLiked = None, c_likesCount = None\<rparr>"

text \<open>
  For every row \<open>(u, t)\<close>: a Comment node, \<open>(u)-[:POSTED]->(c)\<close> and
  \<open>(c)-[:COMMENTS_ON]->(t)\<close>. The rows are pairs of node identities.
\<close>

fun create_comment_rows ::
  "env \<Rightarrow> (nat \<Rightarrow> string) \<Rightarrow> jsstring \<Rightarrow> string \<Rightarrow> string option \<Rightarrow> (nat \<times> nat) list \<Rightarrow> nat \<Rightarrow>
   graph \<Rightarrow> graph" where
  "create_comment_rows E rand text authorId tweetId [] k g = g"
| "create_comment_rows E rand text authorId tweetId ((un, tn) # rows) k g =
     create_comment_rows E rand text authorId tweetId rows (Suc k)
       (g\<lparr>comments := comments g @ [(next_id g, new_comment E (rand k) text authorId tweetId)],
          edges := edges g @
            [\<lparr>e_id = next_id g + 1, e_src = un, e_rel = POSTED, e_dst = next_id g,
              e_createdAt = DvAbsent\<rparr>,
             \<lparr>e_id = next_id g + 2, e_src = next_id g, e_rel = COMMENTS_ON, e_dst = tn,
              e_createdAt = DvAbsent\<rparr>],
          next_id := next_id g + 3\<rparr>)"

text \<open>
  The first statement of the transaction; the Comment node of \<open>commentOnTweet\<close> has no
  \<open>tweetId\<close> property.
\<close>

definition s_createComment ::
  "env \<Rightarrow> (nat \<Rightarrow> string) \<Rightarrow> jsstring \<Rightarrow> string \<Rightarrow> string \<Rightarrow> graph \<Rightarrow> graph" where
  "s_createComment E rand text authorId tweetId g =
     create_comment_rows E rand text authorId None
       [(un, tn). (un, u) \<leftarrow> users_by_id g authorId, (tn, t) \<leftarrow> tweets_by_id g tweetId] 0 g"

text \<open>
  \<open>MATCH (t:Tweet {id: $tweetId}) SET t.commentsCount = COALESCE(t.commentsCount, 0) + 1\<close>
\<close>

definition s_incrementComments :: "string \<Rightarrow> graph \<Rightarrow> graph" where
  "s_incrementComments tweetId g =
     g\<lparr>tweets :=
         map (\<lambda>(n, t). if t_id t = tweetId
                        then (n, t\<lparr>t_commentsCount := Some (nullish (t_commentsCount t) 0 + 1)\<rparr>)
                        else (n, t)) (tweets g)\<rparr>"

text \<open>
  Inside a transaction \<open>tx.run\<close> executes its statement, or it rejects with an error of the
  driver: the store has become unreachable, the transaction was terminated. \<open>rejects\<close> is
  that error, if any.
\<close>

definition tx_run :: "error option \<Rightarrow> (graph \<Rightarrow> graph) \<Rightarrow> graph \<Rightarrow> graph \<times> unit result" where
  "tx_run rejects stmt g =
     (case rejects of Some e \<Rightarrow> (g, Inl e) | None \<Rightarrow> (stmt g, Inr ()))"

text \<open>
  The first \<open>fetchTweet\<close> and the write transaction stand inside the \<open>try\<close>, whose
  \<open>catch\<close> wraps what they throw. The transaction awaits two \<open>tx.run\<close> calls, the second
  only when the first has returned; \<open>fails k\<close> is the error with which call \<open>k\<close> rejects.
  The closing \<open>fetchTweet\<close> is returned without being awaited, so its outcome passes the
  \<open>catch\<close> by and reaches \<open>withSession\<close> as it is; it is declared a \<open>Tweet\<close>, and is null
  when the tweet is not found.
\<close>

definition commentOnTweet ::
  "env \<Rightarrow> (nat \<Rightarrow> string) \<Rightarrow> (nat \<Rightarrow> error option) \<Rightarrow> jsstring \<Rightarrow> string \<Rightarrow> string \<Rightarrow> graph \<Rightarrow>
   graph \<times> Tweet option result" where
  "commentOnTweet E rand fails text authorId tweetId g =
     withSession (\<lambda>g0.
       (case
          (case fetchTweet E tweetId g0 of
             Inl e \<Rightarrow> (g0, Inl e)
           | Inr None \<Rightarrow> (g0, Inl (Error ''Tweet not found''))
           | Inr (Some tweet) \<Rightarrow>
               writeTransaction (\<lambda>g1.
                 (case tx_run (fails 0) (s_createComment E rand text authorId tweetId) g1 of
                    (g2, Inl e) \<Rightarrow> (g2, Inl e)
                  | (g2, Inr _) \<Rightarrow> tx_run (fails 1) (s_incrementComments tweetId) g2)) g0)
        of
          (g3, Inl e) \<Rightarrow>
            (g3, Inl (ApolloError ''Failed to create comment'' (Some ''COMMENT_CREATION_ERROR'')
                        (Some e)))
        | (g3, Inr _) \<Rightarrow> (g3, fetchTweet E tweetId g3))) g"

section \<open>The comment service\<close>



text \<open>\<open>withSession\<close> of the comment service drops the cause and gives no code.\<close>

definition withSessionC ::
  "(graph \<Rightarrow> graph \<times> 'a result) \<Rightarrow> graph \<Rightarrow> graph \<times> 'a result" where
  "withSessionC operation g =
     (case operation g of
        (g', Inl e) \<Rightarrow> (g', Inl (ApolloError ''Failed to execute database operation'' None None))
      | (g', Inr v) \<Rightarrow> (g', Inr v))"






text \<open>
  \<open>MATCH (u:User {id: $userId})-[r:LIKES_COMMENT]->(c:Comment {id: $commentId}) RETURN r\<close>
\<close>

definition q_existingCommentLike :: "graph \<Rightarrow> string \<Rightarrow> string \<Rightarrow> edge list" where
  "q_existingCommentLike g userId commentId =
     [r. (un, u) \<leftarrow> users_by_id g userId, r \<leftarrow> rels g LIKES_COMMENT, e_src r = un,
         (cn, c) \<leftarrow> comments_by_id g commentId, e_dst r = cn]"

text \<open>
  \<open>MATCH (u:User {id: $userId}), (c:Comment {id: $commentId})
  CREATE (u)-[r:LIKES_COMMENT]->(c)\<close>
\<close>

definition s_likeComment :: "string \<Rightarrow> string \<Rightarrow> graph \<Rightarrow> graph" where
  "s_likeComment userId commentId g =
     add_edges g
       [(un, LIKES_COMMENT, cn, DvAbsent).
          (un, u) \<leftarrow> users_by_id g userId, (cn, c) \<leftarrow> comments_by_id g commentId]"

definition likeComment :: "string \<Rightarrow> string \<Rightarrow> graph \<Rightarrow> graph \<times> bool result" where
  "likeComment commentId userId g =
     withSessionC (writeTransaction (\<lambda>g1.
       if q_existingCommentLike g1 userId commentId \<noteq> [] then (g1, Inr False)
       else (s_likeComment userId commentId g1, Inr True))) g"

text \<open>
  \<open>MATCH (u:User {id: $userId})-[r:LIKES_COMMENT]->(c:Comment {id: $commentId}) DELETE r\<close>
\<close>

definition s_unlikeComment :: "string \<Rightarrow> string \<Rightarrow> graph \<Rightarrow> graph" where
  "s_unlikeComment userId commentId g =
     g\<lparr>edges :=
         filter (\<lambda>r. \<not> (e_rel r = LIKES_COMMENT
                          \<and> e_src r \<in> set (map fst (users_by_id g userId))
                          \<and> e_dst r \<in> set (map fst (comments_by_id g commentId))))
           (edges g)\<rparr>"

definition unlikeComment :: "string \<Rightarrow> string \<Rightarrow> graph \<Rightarrow> graph \<times> bool result" where
  "unlikeComment commentId userId g =
     withSessionC (writeTransaction (\<lambda>g1.
       if q_existingCommentLike g1 userId commentId = [] then (g1, Inr False)
       else (s_unlikeComment userId commentId g1, Inr True))) g"

section \<open>The user resolver\<close>

record CtxUser =
  cu_id :: string
  cu_username :: string
  cu_email :: string

record Context =
  ctx_user :: "CtxUser option"

text \<open>
  \<open>UserResolver.followUser\<close>. The user service it calls is not part of the sources at hand:
  its \<open>getFollowings\<close> and \<open>followUser\<close> are parameters. The input object has the one field
  \<open>targetUserId\<close>. Everything thrown inside the \<open>try\<close> reaches the one \<open>catch\<close>, which
  throws a new error with the code FOLLOW_ERROR and the cause as \<open>originalError\<close>.
\<close>

definition followUser ::
  "(string \<Rightarrow> graph \<Rightarrow> graph \<times> BaseUser list result) \<Rightarrow>
   (string \<Rightarrow> string \<Rightarrow> graph \<Rightarrow> graph \<times> 'r result) \<Rightarrow>
   Context \<Rightarrow> string \<Rightarrow> graph \<Rightarrow> graph \<times> bool result" where
  "followUser getFollowings svcFollowUser context targetUserId g =
     (case
        (case ctx_user context of
           None \<Rightarrow> (g, Inl (ApolloError ''Authentication required'' (Some ''UNAUTHORIZED'') None))
         | Some cu \<Rightarrow>
             if cu_id cu = [] then
               (g, Inl (ApolloError ''Authentication required'' (Some ''UNAUTHORIZED'') None))
             else if cu_id cu = targetUserId then
               (g, Inl (ApolloError ''Cannot follow yourself'' (Some ''INVALID_OPERATION'') None))
             else
               (case getFollowings (cu_id cu) g of
                  (g1, Inl e) \<Rightarrow> (g1, Inl e)
                | (g1, Inr existingFollow) \<Rightarrow>
                    if list_ex (\<lambda>f. bu_id f = targetUserId) existingFollow then
                      (g1, Inl (ApolloError ''Already following this user''
                                  (Some ''ALREADY_FOLLOWING'') None))
                    else
                      (case svcFollowUser targetUserId (cu_id cu) g1 of
                         (g2, Inl e) \<Rightarrow> (g2, Inl e)
                       | (g2, Inr _) \<Rightarrow> (g2, Inr True))))
      of
        (g', Inl e) \<Rightarrow>
          (g', Inl (ApolloError ''Failed to follow user'' (Some ''FOLLOW_ERROR'') (Some e)))
      | (g', Inr v) \<Rightarrow> (g', Inr v))"


section \<open>Notions the properties are stated with\<close>

text \<open>
  A user likes a tweet when a LIKES_TWEET relationship leads from a User node with the
  user's id to a Tweet node with the tweet's id; likewise for comments.
\<close>

definition likes_tweet :: "graph \<Rightarrow> string \<Rightarrow> string \<Rightarrow> bool" where
  "likes_tweet g userId tweetId =
     list_ex (\<lambda>r. e_rel r = LIKES_TWEET
                   \<and> e_src r \<in> set (map fst (users_by_id g userId))
                   \<and> e_dst r \<in> set (map fst (tweets_by_id g tweetId))) (edges g)"

definition likes_comment :: "graph \<Rightarrow> string \<Rightarrow> string \<Rightarrow> bool" where
  "likes_comment g userId commentId =
     list_ex (\<lambda>r. e_rel r = LIKES_COMMENT
                   \<and> e_src r \<in> set (map fst (users_by_id g userId))
                   \<and> e_dst r \<in> set (map fst (comments_by_id g commentId))) (edges g)"

text \<open>
  What the store guarantees of its identities: no two nodes share one, no two relationships
  share one, and every identity in use lies below the next one to be handed out.
\<close>

definition node_ids :: "graph \<Rightarrow> nat list" where
  "node_ids g = map fst (users g) @ map fst (tweets g) @ map fst (comments g)"

definition wf_store :: "graph \<Rightarrow> bool" where
  "wf_store g =
     (distinct (node_ids g) \<and> distinct (map e_id (edges g))
      \<and> list_all (\<lambda>n. n < next_id g) (node_ids g)
      \<and> list_all (\<lambda>e. e_id e < next_id g \<and> e_src e < next_id g \<and> e_dst e < next_id g)
           (edges g))"


section \<open>Sample stores\<close>

definition E0 :: env where
  "E0 = \<lparr>js_now = EpochMs 1000, date_parse = (\<lambda>s. None), dt_toString = (\<lambda>d. []),
         db_datetime = DateTime 2024 1 2 0 0 0 0\<rparr>"

definition mk_user :: "string \<Rightarrow> string \<Rightarrow> UserNode" where
  "mk_user uid uname =
     \<lparr>u_id = uid, u_username = uname, u_name = uname, u_email = None, u_bio = None,
      u_pfp = None, u_coverPhoto = None, u_isVerified = Some False,
      u_createdAt = DvDateTime (DateTime 2024 1 1 0 0 0 0),
      u_updatedAt = DvDateTime (DateTime 2024 1 1 0 0 0 0)\<rparr>"

definition mk_edge :: "nat \<Rightarrow> nat \<Rightarrow> RelationshipType \<Rightarrow> nat \<Rightarrow> dateValue \<Rightarrow> edge" where
  "mk_edge i s ty d c = \<lparr>e_id = i, e_src = s, e_rel = ty, e_dst = d, e_createdAt = c\<rparr>"

text \<open>Two users, alice (node 0, id u1) and bob (node 1, id u2), and nothing else.\<close>

definition G_users :: graph where
  "G_users = \<lparr>users = [(0, mk_user ''u1'' ''alice''), (1, mk_user ''u2'' ''bob'')],
              tweets = [], comments = [], edges = [], next_id = 2\<rparr>"

text \<open>After alice's \<open>createTweet\<close>: the tweet t1 is node 2, its POSTED relationship is 3.\<close>

definition G_tweet :: graph where
  "G_tweet = G_users\<lparr>tweets := [(2, new_tweet E0 ''t1'' (js ''hello'') [] ''u1'')],
                     edges := [mk_edge 3 0 POSTED 2 DvAbsent], next_id := 4\<rparr>"

text \<open>After bob's \<open>likeTweet\<close> of t1.\<close>

definition G_liked :: graph where
  "G_liked = G_tweet\<lparr>edges := edges G_tweet @
                        [mk_edge 4 1 LIKES_TWEET 2 (DvDateTime (DateTime 2024 1 2 0 0 0 0))],
                      next_id := 5\<rparr>"

text \<open>
  A store with bob's comment c1 (node 4) on t1 and alice's like of the comment; the Comment
  node carries a stale \<open>likesCount\<close> property to show that reads do not use it.
\<close>

definition G_commented :: graph where
  "G_commented =
     G_tweet\<lparr>comments := [(4, (new_comment E0 ''c1'' (js ''nice'') ''u2'' None)
                                  \<lparr>c_likesCount := Some 7\<rparr>)],
             edges := edges G_tweet @
               [mk_edge 5 1 POSTED 4 DvAbsent, mk_edge 6 4 COMMENTS_ON 2 DvAbsent,
                mk_edge 7 0 LIKES_COMMENT 4 DvAbsent],
             next_id := 8\<rparr>"

text \<open>
  A store whose tweet has no \<open>createdAt\<close> property and a text that is no date as
  \<open>updatedAt\<close>; alice posted it, likes it and follows bob.
\<close>

definition T_nodate :: TweetNode where
  "T_nodate = (new_tweet E0 ''t1'' (js ''hello'') [] ''u1'')
                 \<lparr>t_createdAt := DvAbsent, t_updatedAt := DvString ''not a date''\<rparr>"

definition G_nodate :: graph where
  "G_nodate =
     G_users\<lparr>tweets := [(2, T_nodate)],
             edges := [mk_edge 3 0 POSTED 2 DvAbsent,
                       mk_edge 4 0 LIKES_TWEET 2 (DvDateTime (DateTime 2024 1 2 0 0 0 0)),
                       mk_edge 5 0 FOLLOWS 1 DvAbsent],
             next_id := 6\<rparr>"

definition alice_ctx :: Context where
  "alice_ctx =
     \<lparr>ctx_user = Some \<lparr>cu_id = ''u1'', cu_username = ''alice'',
                        cu_email = ''alice@example.com''\<rparr>\<rparr>"

section \<open>Facts about the statements\<close>

lemma set_existingLike:
  "set (q_existingLike g u t) =
     {r \<in> set (edges g). e_rel r = LIKES_TWEET
        \<and> e_src r \<in> set (map fst (users_by_id g u))
        \<and> e_dst r \<in> set (map fst (tweets_by_id g t))}"
  by (force simp: q_existingLike_def rels_def image_iff split: if_splits)

lemma set_existingCommentLike:
  "set (q_existingCommentLike g u c) =
     {r \<in> set (edges g). e_rel r = LIKES_COMMENT
        \<and> e_src r \<in> set (map fst (users_by_id g u))
        \<and> e_dst r \<in> set (map fst (comments_by_id g c))}"
  by (force simp: q_existingCommentLike_def rels_def image_iff split: if_splits)

lemma existingLike_iff: "q_existingLike g u t \<noteq> [] \<longleftrightarrow> likes_tweet g u t"
proof -
  have "q_existingLike g u t \<noteq> [] \<longleftrightarrow> set (q_existingLike g u t) \<noteq> {}" by simp
  also have "\<dots> \<longleftrightarrow> likes_tweet g u t"
    unfolding set_existingLike likes_tweet_def list_ex_iff by blast
  finally show ?thesis .
qed

lemma existingCommentLike_iff:
  "q_existingCommentLike g u c \<noteq> [] \<longleftrightarrow> likes_comment g u c"
proof -
  have "q_existingCommentLike g u c \<noteq> [] \<longleftrightarrow> set (q_existingCommentLike g u c) \<noteq> {}"
    by simp
  also have "\<dots> \<longleftrightarrow> likes_comment g u c"
    unfolding set_existingCommentLike likes_comment_def list_ex_iff by blast
  finally show ?thesis .
qed

lemma filter_all: "(\<And>x. x \<in> set xs \<Longrightarrow> P x) \<Longrightarrow> filter P xs = xs"
  by (induction xs) auto

lemma s_unlikeTweet_noop: "\<not> likes_tweet g u t \<Longrightarrow> s_unlikeTweet u t g = g"
  by (simp add: s_unlikeTweet_def likes_tweet_def list_ex_iff filter_all)

lemma set_insert_desc: "set (insert_desc k x ys) = insert x (set ys)"
  by (induction ys) auto

lemma set_order_by_desc: "set (order_by_desc k xs) = set xs"
  by (induction xs) (auto simp: order_by_desc_def set_insert_desc)

lemma rels_add_edges_other:
  assumes "list_all (\<lambda>(s, ty', d, c). ty' \<noteq> ty) es"
  shows "rels (add_edges g es) ty = rels g ty"
proof -
  have other: "ty' \<noteq> ty" if "(k, (s, ty', d, c)) \<in> set (enumerate 0 es)" for k s ty' d c
  proof -
    from that have "k < length es" and "es ! k = (s, ty', d, c)"
      by (simp_all add: in_set_enumerate_eq)
    then have "(s, ty', d, c) \<in> set es"
      using nth_mem[of k es] by simp
    with assms show ?thesis
      by (auto simp: list_all_iff)
  qed
  have "filter (\<lambda>e. e_rel e = ty)
          (map (\<lambda>(k, (s, ty, d, c)).
                  \<lparr>e_id = next_id g + k, e_src = s, e_rel = ty, e_dst = d, e_createdAt = c\<rparr>)
             (enumerate 0 es)) = []"
    unfolding filter_empty_conv using other by fastforce
  then show ?thesis
    by (simp add: rels_def add_edges_def)
qed

lemma posters_cong:
  assumes "users g' = users g" and "rels g' POSTED = rels g POSTED"
  shows "posters g' x = posters g x"
  unfolding posters_def assms ..

lemma q_fetchTweet_cong:
  assumes "users g' = users g" and "tweets g' = tweets g" and "rels g' POSTED = rels g POSTED"
  shows "q_fetchTweet g' x = q_fetchTweet g x"
  unfolding q_fetchTweet_def tweets_by_id_def posters_cong[OF assms(1,3)] assms(2) ..

lemma fetchTweet_cong:
  assumes "users g' = users g" and "tweets g' = tweets g" and "rels g' POSTED = rels g POSTED"
  shows "fetchTweet E x g' = fetchTweet E x g"
  unfolding fetchTweet_def withSession_def q_fetchTweet_cong[OF assms]
  by (simp split: list.splits)

lemma s_likeTweet_nodes:
  "users (s_likeTweet E u t g) = users g" "tweets (s_likeTweet E u t g) = tweets g"
  "comments (s_likeTweet E u t g) = comments g"
  by (simp_all add: s_likeTweet_def add_edges_def)

lemma s_likeTweet_posted: "rels (s_likeTweet E u t g) POSTED = rels g POSTED"
  unfolding s_likeTweet_def
  by (rule rels_add_edges_other) (auto simp: list_all_iff)

lemma fst_likeTweet:
  "fst (likeTweet E t u g) = (if likes_tweet g u t then g else s_likeTweet E u t g)"
  using existingLike_iff[of g u t]
  by (simp add: likeTweet_def withSession_def writeTransaction_def)

lemma fst_unlikeTweet: "fst (unlikeTweet t u g) = s_unlikeTweet u t g"
  by (simp add: unlikeTweet_def withSession_def session_run_def)

lemma filter_filter_implied: "(\<And>x. P x \<Longrightarrow> Q x) \<Longrightarrow> filter P (filter Q xs) = filter P xs"
  by (induction xs) auto

lemma s_unlikeTweet_posted: "rels (s_unlikeTweet u t g) POSTED = rels g POSTED"
proof -
  have e: "edges (s_unlikeTweet u t g) =
     filter (\<lambda>r. \<not> (e_rel r = LIKES_TWEET
                          \<and> e_src r \<in> set (map fst (users_by_id g u))
                          \<and> e_dst r \<in> set (map fst (tweets_by_id g t)))) (edges g)"
    by (simp add: s_unlikeTweet_def)
  show ?thesis
    unfolding rels_def e by (rule filter_filter_implied) simp
qed

lemma G_tweet_not_liked: "q_existingLike G_tweet ''u2'' ''t1'' = []"
  by code_simp

lemma G_tweet_like: "s_likeTweet E0 ''u2'' ''t1'' G_tweet = G_liked"
  by (simp add: s_likeTweet_def add_edges_def users_by_id_def tweets_by_id_def G_liked_def
      G_tweet_def G_users_def mk_user_def mk_edge_def new_tweet_def E0_def enumerate_eq_zip)

lemma deleteTweet_eq:
  "deleteTweet tweetId g =
     (if list_ex (\<lambda>r. e_src r \<in> set (map fst (tweets_by_id g tweetId))
                     \<or> e_dst r \<in> set (map fst (tweets_by_id g tweetId)))
           (edges (s_deleteIncoming tweetId g))
      then (g, Inl (ApolloError ''Failed to execute database operation'' (Some ''DATABASE_ERROR'')
                      (Some (ApolloError ''Failed to delete tweet'' (Some ''TWEET_DELETION_ERROR'')
                        (Some (Error ''Cannot delete node, because it still has relationships''))))))
      else ((s_deleteIncoming tweetId g)\<lparr>tweets := filter (\<lambda>(n, t). t_id t \<noteq> tweetId) (tweets g)\<rparr>,
            Inr True))"
  by (simp add: deleteTweet_def withSession_def writeTransaction_def s_deleteTweetNode_def
      s_deleteIncoming_def tweets_by_id_def)

lemma tw_id_listItem: "tw_id (listItem E t u) = t_id t"
  by (simp add: listItem_def)

lemma q_listTweets_sub:
  "(t, u) \<in> set (q_listTweets g) \<Longrightarrow> t \<in> snd ` set (tweets g)"
  by (force simp: q_listTweets_def set_order_by_desc)

lemma q_listLikedTweets_sub:
  "(t, u) \<in> set (q_listLikedTweets g userId) \<Longrightarrow> t \<in> snd ` set (tweets g)"
  by (force simp: q_listLikedTweets_def set_order_by_desc split: if_splits)

lemma listTweets_ids:
  "\<exists>ts. listTweets E g = Inr ts \<and> set (map tw_id ts) \<subseteq> t_id ` snd ` set (tweets g)"
  using q_listTweets_sub[of _ _ g]
  by (auto simp: listTweets_def withSession_def tw_id_listItem)

lemma listLikedTweets_ids:
  "\<exists>ts. listLikedTweets E userId g = Inr ts
        \<and> set (map tw_id ts) \<subseteq> t_id ` snd ` set (tweets g)"
  using q_listLikedTweets_sub[of _ _ g userId]
  by (auto simp: listLikedTweets_def withSession_def tw_id_listItem)

lemma G_liked_delete:
  "deleteTweet ''t1'' G_liked = (G_users\<lparr>next_id := 5\<rparr>, Inr True)"
  by (simp add: deleteTweet_eq s_deleteIncoming_def tweets_by_id_def G_liked_def G_tweet_def
      G_users_def mk_edge_def new_tweet_def)







lemma concat_if_none:
  "(\<And>r. r \<in> set rs \<Longrightarrow> \<not> P r) \<Longrightarrow> concat (map (\<lambda>r. if P r then F r else []) rs) = []"
  by (induction rs) auto

lemma lookup_none:
  "n \<notin> fst ` set xs \<Longrightarrow> concat (map (\<lambda>(m, w). if m = n then [w] else []) xs) = []"
  by (induction xs) auto

lemma lookup_unique:
  "distinct (map fst xs) \<Longrightarrow> (n, v) \<in> set xs \<Longrightarrow>
   concat (map (\<lambda>(m, w). if m = n then [w] else []) xs) = [v]"
proof (induction xs)
  case Nil
  then show ?case by simp
next
  case (Cons x xs)
  show ?case
  proof (cases "fst x = n")
    case True
    with Cons.prems have "x = (n, v)" and "n \<notin> fst ` set xs"
      by (auto simp: image_iff)
    then show ?thesis by (simp add: lookup_none)
  next
    case False
    with Cons show ?thesis by (auto simp: case_prod_beta)
  qed
qed

lemma wf_store_users: "wf_store g \<Longrightarrow> distinct (map fst (users g))"
  by (simp add: wf_store_def node_ids_def)

lemma wf_store_tweet_lt:
  assumes "wf_store g" and "(tn, t) \<in> set (tweets g)"
  shows "tn < next_id g"
proof -
  from assms(2) have "tn \<in> set (node_ids g)"
    by (force simp: node_ids_def)
  with assms(1) show ?thesis
    by (simp add: wf_store_def list_all_iff)
qed

lemma wf_store_dst_lt: "wf_store g \<Longrightarrow> r \<in> set (edges g) \<Longrightarrow> e_dst r < next_id g"
  by (simp add: wf_store_def list_all_iff)

lemma users_by_id_single: "users_by_id g x = [(un, u)] \<Longrightarrow> (un, u) \<in> set (users g)"
proof -
  assume "users_by_id g x = [(un, u)]"
  then have "(un, u) \<in> set (users_by_id g x)" by simp
  then show ?thesis by (simp add: users_by_id_def)
qed

lemma posters_append:
  assumes "users g' = users g" and "edges g' = edges g @ es"
  shows "posters g' x = posters g x @ posters (g\<lparr>edges := es\<rparr>) x"
  by (simp add: posters_def rels_def assms cong: if_cong)

lemma posters_new_posted:
  assumes "wf_store g" and "(un, u) \<in> set (users g)"
  shows "posters (g\<lparr>edges := [\<lparr>e_id = i, e_src = un, e_rel = POSTED, e_dst = x,
                                 e_createdAt = c\<rparr>]\<rparr>) x = [u]"
  using lookup_unique[OF wf_store_users[OF assms(1)] assms(2)]
  by (simp add: posters_def rels_def)

lemma posters_fresh_node:
  assumes "wf_store g"
  shows "posters g (next_id g) = []"
proof -
  have "\<not> e_dst r = next_id g" if "r \<in> set (rels g POSTED)" for r
    using that wf_store_dst_lt[OF assms, of r] by (auto simp: rels_def)
  then show ?thesis
    unfolding posters_def by (rule concat_if_none)
qed

lemma wf_G_users: "wf_store G_users"
  by (simp add: wf_store_def node_ids_def G_users_def)

lemma wf_G_tweet: "wf_store G_tweet"
  by (simp add: wf_store_def node_ids_def G_tweet_def G_users_def mk_edge_def)

lemma filter_map_keep:
  "(\<And>x. P (f x) = P x) \<Longrightarrow> filter P (map f xs) = map f (filter P xs)"
  by (induction xs) auto

lemma tweets_by_id_increment:
  "tweets_by_id (s_incrementComments x g) y =
     map (\<lambda>(n, t). if t_id t = x
                    then (n, t\<lparr>t_commentsCount := Some (nullish (t_commentsCount t) 0 + 1)\<rparr>)
                    else (n, t)) (tweets_by_id g y)"
  unfolding tweets_by_id_def s_incrementComments_def
  by (simp, rule filter_map_keep) (auto split: prod.splits)

lemma commentOnTweet_error_leaves_store:
  "commentOnTweet E rand fails text authorId tweetId g = (g', Inl e) \<Longrightarrow> g' = g"
  unfolding commentOnTweet_def withSession_def writeTransaction_def tx_run_def fetchTweet_def
  by (auto split: option.splits sum.splits prod.splits list.splits if_splits)

lemma commentOnTweet_unknown_author:
  assumes "users_by_id g authorId = []"
    and "fetchTweet E tweetId g = Inr (Some tw)"
    and "fails 0 = None" and "fails 1 = None"
  shows "fst (commentOnTweet E rand fails text authorId tweetId g) = s_incrementComments tweetId g"
  using assms
  by (simp add: commentOnTweet_def withSession_def writeTransaction_def tx_run_def
      s_createComment_def split: sum.splits)






lemma createTweet_blank_text:
  "trim text = [] \<Longrightarrow>
     createTweet E rand text media authorId g =
       (g, Inl (ApolloError ''Tweet text cannot be empty'' (Some ''INVALID_INPUT'') None))"
  by (simp add: createTweet_def)

lemma trim_spaces: "trim (js ''  '') = []"
  by (simp add: trim_def is_ws_def js_def)

section \<open>The properties\<close>

text \<open>
  C1. The timeline of a user is claimed to hold the user's own tweets and those of the
  users followed. In the store \<open>G_tweet\<close> alice has posted t1 and follows nobody:
  \<open>listUserTweets\<close> returns t1, and \<open>listTimelineTweets\<close> returns nothing, since the
  first MATCH of the statement has no row without a FOLLOWS relationship.
\<close>

theorem timeline_without_follows_is_empty:
  "listUserTweets E ''u1'' G_tweet =
     Inr [listItem E (new_tweet E0 ''t1'' (js ''hello'') [] ''u1'') (mk_user ''u1'' ''alice'')]
   \<and> listTimelineTweets E ''u1'' G_tweet = Inr []"
  by code_simp

text \<open>
  C2. The \<open>likesCount\<close> of a tweet is claimed to follow its LIKES_TWEET relationships,
  written in the transaction that writes the relationship. In every store \<open>likeTweet\<close> and
  \<open>unlikeTweet\<close> write relationships only: no Tweet node changes, and \<open>fetchTweet\<close>
  returns after either call what it returned before. In the store \<open>G_tweet\<close> bob likes the
  fresh tweet t1: the call succeeds, the one LIKES_TWEET relationship into t1 exists
  afterwards, and \<open>fetchTweet\<close> reports \<open>likesCount = 0\<close> and \<open>isLiked = false\<close> where 1
  and true are claimed; bob's \<open>unlikeTweet\<close> then deletes the relationship. The sibling
  \<open>commentOnTweet\<close> does raise \<open>commentsCount\<close> in the transaction that creates the
  comment.
\<close>

theorem likeTweet_leaves_likesCount_stale:
  "tweets (fst (likeTweet E tweetId userId g)) = tweets g
   \<and> fetchTweet E x (fst (likeTweet E tweetId userId g)) = fetchTweet E x g
   \<and> tweets (fst (unlikeTweet tweetId userId g)) = tweets g
   \<and> fetchTweet E x (fst (unlikeTweet tweetId userId g)) = fetchTweet E x g
   \<and> \<not> likes_tweet G_tweet ''u2'' ''t1''
   \<and> likeTweet E0 ''t1'' ''u2'' G_tweet = (G_liked, Inr True)
   \<and> likes_tweet G_liked ''u2'' ''t1''
   \<and> rels G_liked LIKES_TWEET = [mk_edge 4 1 LIKES_TWEET 2 (DvDateTime (DateTime 2024 1 2 0 0 0 0))]
   \<and> fetchTweet E0 ''t1'' G_liked =
       Inr (Some (mapTweet E0 (new_tweet E0 ''t1'' (js ''hello'') [] ''u1'') (mk_user ''u1'' ''alice'')))
   \<and> tw_likesCount (mapTweet E0 (new_tweet E0 ''t1'' (js ''hello'') [] ''u1'') (mk_user ''u1'' ''alice''))
       = Some 0
   \<and> tw_isLiked (mapTweet E0 (new_tweet E0 ''t1'' (js ''hello'') [] ''u1'') (mk_user ''u1'' ''alice''))
       = Some False
   \<and> snd (unlikeTweet ''t1'' ''u2'' G_liked) = Inr True
   \<and> rels (fst (unlikeTweet ''t1'' ''u2'' G_liked)) LIKES_TWEET = []"
proof -
  have l: "fetchTweet E x (s_likeTweet E userId tweetId g) = fetchTweet E x g"
    by (rule fetchTweet_cong) (simp_all add: s_likeTweet_nodes s_likeTweet_posted)
  have ul: "fetchTweet E x (s_unlikeTweet userId tweetId g) = fetchTweet E x g"
    by (rule fetchTweet_cong) (simp_all add: s_unlikeTweet_posted, simp_all add: s_unlikeTweet_def)
  have frame: "tweets (fst (likeTweet E tweetId userId g)) = tweets g
   \<and> fetchTweet E x (fst (likeTweet E tweetId userId g)) = fetchTweet E x g
   \<and> tweets (fst (unlikeTweet tweetId userId g)) = tweets g
   \<and> fetchTweet E x (fst (unlikeTweet tweetId userId g)) = fetchTweet E x g"
    by (simp add: fst_likeTweet fst_unlikeTweet s_likeTweet_nodes l ul)
       (simp add: s_unlikeTweet_def)
  have n: "\<not> likes_tweet G_tweet ''u2'' ''t1''"
    by code_simp
  have a: "likeTweet E0 ''t1'' ''u2'' G_tweet = (G_liked, Inr True)"
    by (simp add: likeTweet_def withSession_def writeTransaction_def G_tweet_not_liked
        G_tweet_like)
  have b: "likes_tweet G_liked ''u2'' ''t1''"
    by code_simp
  have r: "rels G_liked LIKES_TWEET
             = [mk_edge 4 1 LIKES_TWEET 2 (DvDateTime (DateTime 2024 1 2 0 0 0 0))]"
    by (simp add: rels_def G_liked_def G_tweet_def G_users_def mk_edge_def)
  have c: "fetchTweet E0 ''t1'' G_liked =
       Inr (Some (mapTweet E0 (new_tweet E0 ''t1'' (js ''hello'') [] ''u1'') (mk_user ''u1'' ''alice'')))"
    by (simp add: fetchTweet_def withSession_def q_fetchTweet_def posters_def
        users_by_id_def tweets_by_id_def rels_def G_liked_def
        G_tweet_def G_users_def mk_user_def mk_edge_def new_tweet_def)
  have d: "tw_likesCount (mapTweet E0 (new_tweet E0 ''t1'' (js ''hello'') [] ''u1'') (mk_user ''u1'' ''alice''))
       = Some 0
   \<and> tw_isLiked (mapTweet E0 (new_tweet E0 ''t1'' (js ''hello'') [] ''u1'') (mk_user ''u1'' ''alice''))
       = Some False"
    by (simp add: mapTweet_def new_tweet_def nullish_def)
  have e: "snd (unlikeTweet ''t1'' ''u2'' G_liked) = Inr True"
    by code_simp
  have f: "rels (fst (unlikeTweet ''t1'' ''u2'' G_liked)) LIKES_TWEET = []"
    by code_simp
  from frame n a b r c d e f show ?thesis
    by (intro conjI) simp_all
qed

text \<open>
  C3. When the like exists already, \<open>likeTweet\<close> throws (the session wrapper's error, with
  "Tweet already liked" as its cause) and \<open>likeComment\<close> returns false; either way the
  store is the one before the call, so no second relationship exists.
\<close>

theorem like_when_already_liked:
  "(likes_tweet g userId tweetId \<longrightarrow>
      likeTweet E tweetId userId g =
        (g, Inl (ApolloError ''Failed to execute database operation'' (Some ''DATABASE_ERROR'')
                   (Some (Error ''Tweet already liked'')))))
   \<and> (likes_comment g userId commentId \<longrightarrow> likeComment commentId userId g = (g, Inr False))"
  using existingCommentLike_iff[of g userId commentId] existingLike_iff[of g userId tweetId]
  by (simp add: likeTweet_def likeComment_def withSession_def withSessionC_def
      writeTransaction_def)

theorem like_when_already_liked_witness:
  "likes_tweet G_liked ''u2'' ''t1''
   \<and> likeTweet E0 ''t1'' ''u2'' G_liked =
        (G_liked, Inl (ApolloError ''Failed to execute database operation''
                         (Some ''DATABASE_ERROR'') (Some (Error ''Tweet already liked''))))
   \<and> likes_comment G_commented ''u1'' ''c1''
   \<and> likeComment ''c1'' ''u1'' G_commented = (G_commented, Inr False)"
proof -
  have h1: "likes_tweet G_liked ''u2'' ''t1''" by code_simp
  have h2: "likes_comment G_commented ''u1'' ''c1''" by code_simp
  show ?thesis
    using h1 h2 like_when_already_liked[of G_liked "''u2''" "''t1''" E0]
      like_when_already_liked[of G_commented "''u1''" _ _ "''c1''"]
    by simp
qed

text \<open>
  C4, as amended. Unliking what was never liked changes nothing and raises nothing;
  \<open>unlikeTweet\<close> returns true, \<open>unlikeComment\<close> returns false.
\<close>

theorem unlike_when_not_liked:
  "(\<not> likes_tweet g userId tweetId \<longrightarrow> unlikeTweet tweetId userId g = (g, Inr True))
   \<and> (\<not> likes_comment g userId commentId \<longrightarrow>
        unlikeComment commentId userId g = (g, Inr False))"
  using existingCommentLike_iff[of g userId commentId]
  by (simp add: unlikeTweet_def unlikeComment_def withSession_def withSessionC_def
      session_run_def s_unlikeTweet_noop writeTransaction_def)

theorem unlike_when_not_liked_witness:
  "\<not> likes_tweet G_tweet ''u2'' ''t1''
   \<and> unlikeTweet ''t1'' ''u2'' G_tweet = (G_tweet, Inr True)
   \<and> \<not> likes_comment G_commented ''u2'' ''c1''
   \<and> unlikeComment ''c1'' ''u2'' G_commented = (G_commented, Inr False)"
proof -
  have h1: "\<not> likes_tweet G_tweet ''u2'' ''t1''" by code_simp
  have h2: "\<not> likes_comment G_commented ''u2'' ''c1''" by code_simp
  show ?thesis
    using h1 h2 unlike_when_not_liked[of G_tweet "''u2''" "''t1''"]
      unlike_when_not_liked[of G_commented "''u2''" _ "''c1''"]
    by simp
qed

text \<open>
  C4, as stated, fails: bob never liked t1, and \<open>unlikeTweet\<close> returns true, not false.
\<close>

theorem unlikeTweet_returns_true_counterexample:
  "\<not> likes_tweet G_tweet ''u2'' ''t1''
   \<and> snd (unlikeTweet ''t1'' ''u2'' G_tweet) = Inr True
   \<and> snd (unlikeTweet ''t1'' ''u2'' G_tweet) \<noteq> Inr False"
  by code_simp

text \<open>
  C5. Alice asks to follow herself. The resolver throws the INVALID_OPERATION error inside
  its \<open>try\<close>; what leaves \<open>followUser\<close> is the FOLLOW_ERROR error of the \<open>catch\<close>, which
  carries the first one as its cause. No relationship is created.
\<close>

theorem followUser_self_gives_follow_error:
  "followUser getFollowings svcFollowUser alice_ctx ''u1'' g =
   (g, Inl (ApolloError ''Failed to follow user'' (Some ''FOLLOW_ERROR'')
              (Some (ApolloError ''Cannot follow yourself'' (Some ''INVALID_OPERATION'') None))))"
  by (simp add: followUser_def alice_ctx_def)

text \<open>
  C6. The author is the one User node with \<open>authorId\<close>, the tweet the one Tweet node with
  \<open>tweetId\<close>, and it has one poster. When both statements of the transaction run,
  \<open>commentOnTweet\<close> returns the tweet as \<open>fetchTweet\<close> reads it afterwards, its
  \<open>commentsCount\<close> one more than the count the tweet had (a tweet with no count has 0); the
  store has gained exactly one Comment node, whose \<open>authorId\<close> is the author's id, the POSTED
  relationship from the author to it and the COMMENTS_ON relationship from it to the tweet,
  and no other tweet has changed. When either statement is rejected, the first or the second
  after the first has run, \<open>commentOnTweet\<close> throws and the store is the one it started
  from: no comment, no relationship, no increment.
\<close>

theorem commentOnTweet_effect:
  assumes wf: "wf_store g"
    and usr: "users_by_id g authorId = [(un, u)]"
    and twt: "tweets_by_id g tweetId = [(tn, t)]"
    and pst: "posters g tn = [a]"
  shows "(fails 0 = None \<and> fails 1 = None \<longrightarrow>
      (\<exists>g' tw'. commentOnTweet E rand fails text authorId tweetId g = (g', Inr (Some tw'))
        \<and> fetchTweet E tweetId g' = Inr (Some tw')
        \<and> tw_commentsCount tw' = Some (nullish (t_commentsCount t) 0 + 1)
        \<and> users g' = users g
        \<and> tweets_by_id g' tweetId =
            [(tn, t\<lparr>t_commentsCount := Some (nullish (t_commentsCount t) 0 + 1)\<rparr>)]
        \<and> (\<forall>x. x \<noteq> tweetId \<longrightarrow> tweets_by_id g' x = tweets_by_id g x)
        \<and> comments g' = comments g @ [(next_id g, new_comment E (rand 0) text authorId None)]
        \<and> c_authorId (new_comment E (rand 0) text authorId None) = authorId
        \<and> edges g' = edges g @
             [\<lparr>e_id = next_id g + 1, e_src = un, e_rel = POSTED, e_dst = next_id g,
               e_createdAt = DvAbsent\<rparr>,
              \<lparr>e_id = next_id g + 2, e_src = next_id g, e_rel = COMMENTS_ON, e_dst = tn,
               e_createdAt = DvAbsent\<rparr>]))
    \<and> (\<forall>e. fails 0 = Some e \<or> (fails 0 = None \<and> fails 1 = Some e) \<longrightarrow>
          commentOnTweet E rand fails text authorId tweetId g =
            (g, Inl (ApolloError ''Failed to execute database operation'' (Some ''DATABASE_ERROR'')
                      (Some (ApolloError ''Failed to create comment''
                               (Some ''COMMENT_CREATION_ERROR'') (Some e))))))"
proof -
  define e1 where "e1 = \<lparr>e_id = next_id g + 1, e_src = un, e_rel = POSTED, e_dst = next_id g,
                          e_createdAt = DvAbsent\<rparr>"
  define e2 where "e2 = \<lparr>e_id = next_id g + 2, e_src = next_id g, e_rel = COMMENTS_ON,
                          e_dst = tn, e_createdAt = DvAbsent\<rparr>"
  define g1 where "g1 = g\<lparr>comments := comments g @
                            [(next_id g, new_comment E (rand 0) text authorId None)],
                          edges := edges g @ [e1, e2], next_id := next_id g + 3\<rparr>"
  define g2 where "g2 = s_incrementComments tweetId g1"
  define t' where "t' = t\<lparr>t_commentsCount := Some (nullish (t_commentsCount t) 0 + 1)\<rparr>"
  have tin: "(tn, t) \<in> set (tweets g)"
  proof -
    have "(tn, t) \<in> set (tweets_by_id g tweetId)" by (simp add: twt)
    then show ?thesis by (simp add: tweets_by_id_def)
  qed
  have tid: "t_id t = tweetId"
  proof -
    have "(tn, t) \<in> set (tweets_by_id g tweetId)" by (simp add: twt)
    then show ?thesis by (simp add: tweets_by_id_def)
  qed
  have lt: "tn < next_id g"
    using wf tin by (rule wf_store_tweet_lt)
  have before: "fetchTweet E tweetId g = Inr (Some (mapTweet E t a))"
    by (simp add: fetchTweet_def withSession_def q_fetchTweet_def twt pst)
  have stmt1: "s_createComment E rand text authorId tweetId g = g1"
    by (simp add: s_createComment_def usr twt g1_def e1_def e2_def)
  have by1: "tweets_by_id g1 x = tweets_by_id g x" for x
    by (simp add: tweets_by_id_def g1_def)
  have by2: "tweets_by_id g2 tweetId = [(tn, t')]"
    by (simp add: g2_def tweets_by_id_increment by1 twt tid t'_def)
  have others: "tweets_by_id g2 x = tweets_by_id g x" if "x \<noteq> tweetId" for x
  proof -
    have "map (\<lambda>(n, t). if t_id t = tweetId
                 then (n, t\<lparr>t_commentsCount := Some (nullish (t_commentsCount t) 0 + 1)\<rparr>)
                 else (n, t)) (tweets_by_id g x) = tweets_by_id g x"
      using that by (intro map_idI) (auto simp: tweets_by_id_def)
    then show ?thesis
      by (simp add: g2_def tweets_by_id_increment by1)
  qed
  have "posters g2 tn = posters g tn @ posters (g\<lparr>edges := [e1, e2]\<rparr>) tn"
    by (rule posters_append) (simp_all add: g2_def g1_def s_incrementComments_def)
  also have "posters (g\<lparr>edges := [e1, e2]\<rparr>) tn = []"
    using lt by (simp add: posters_def rels_def e1_def e2_def)
  finally have post: "posters g2 tn = [a]"
    by (simp add: pst)
  have "q_fetchTweet g2 tweetId = [(t', a)]"
    by (simp add: q_fetchTweet_def by2 post)
  then have after: "fetchTweet E tweetId g2 = Inr (Some (mapTweet E t' a))"
    by (simp add: fetchTweet_def withSession_def)
  have count: "tw_commentsCount (mapTweet E t' a) = Some (nullish (t_commentsCount t) 0 + 1)"
    by (simp add: mapTweet_def t'_def nullish_def)
  have shape: "users g2 = users g
    \<and> comments g2 = comments g @ [(next_id g, new_comment E (rand 0) text authorId None)]
    \<and> c_authorId (new_comment E (rand 0) text authorId None) = authorId
    \<and> edges g2 = edges g @ [e1, e2]"
    by (simp add: g2_def g1_def s_incrementComments_def new_comment_def)
  have commits: "\<exists>g' tw'. commentOnTweet E rand fails text authorId tweetId g = (g', Inr (Some tw'))
        \<and> fetchTweet E tweetId g' = Inr (Some tw')
        \<and> tw_commentsCount tw' = Some (nullish (t_commentsCount t) 0 + 1)
        \<and> users g' = users g
        \<and> tweets_by_id g' tweetId = [(tn, t')]
        \<and> (\<forall>x. x \<noteq> tweetId \<longrightarrow> tweets_by_id g' x = tweets_by_id g x)
        \<and> comments g' = comments g @ [(next_id g, new_comment E (rand 0) text authorId None)]
        \<and> c_authorId (new_comment E (rand 0) text authorId None) = authorId
        \<and> edges g' = edges g @ [e1, e2]"
    if run: "fails 0 = None" "fails 1 = None"
  proof -
    from run have run': "fails (Suc 0) = None" by simp
    have "commentOnTweet E rand fails text authorId tweetId g
            = (g2, Inr (Some (mapTweet E t' a)))"
      by (simp add: commentOnTweet_def withSession_def writeTransaction_def tx_run_def run run'
          before stmt1 after g2_def[symmetric])
    with after count shape by2 others show ?thesis
      by (intro exI[of _ g2] exI[of _ "mapTweet E t' a"]) simp
  qed
  have first: "commentOnTweet E rand fails text authorId tweetId g =
      (g, Inl (ApolloError ''Failed to execute database operation'' (Some ''DATABASE_ERROR'')
                (Some (ApolloError ''Failed to create comment''
                         (Some ''COMMENT_CREATION_ERROR'') (Some e)))))"
    if "fails 0 = Some e" for e
    by (simp add: commentOnTweet_def withSession_def writeTransaction_def tx_run_def that before)
  have second: "commentOnTweet E rand fails text authorId tweetId g =
      (g, Inl (ApolloError ''Failed to execute database operation'' (Some ''DATABASE_ERROR'')
                (Some (ApolloError ''Failed to create comment''
                         (Some ''COMMENT_CREATION_ERROR'') (Some e)))))"
    if "fails 0 = None" "fails 1 = Some e" for e
    using that
    by (simp add: commentOnTweet_def withSession_def writeTransaction_def tx_run_def before)
  from commits first second show ?thesis
    unfolding e1_def e2_def t'_def by blast
qed

theorem commentOnTweet_effect_witness:
  "wf_store G_tweet
   \<and> users_by_id G_tweet ''u2'' = [(1, mk_user ''u2'' ''bob'')]
   \<and> tweets_by_id G_tweet ''t1'' = [(2, new_tweet E0 ''t1'' (js ''hello'') [] ''u1'')]
   \<and> posters G_tweet 2 = [mk_user ''u1'' ''alice'']
   \<and> (\<exists>g' tw'. commentOnTweet E0 (\<lambda>k. ''c1'') (\<lambda>k. None) (js ''nice'') ''u2'' ''t1'' G_tweet
                    = (g', Inr (Some tw'))
        \<and> fetchTweet E0 ''t1'' g' = Inr (Some tw')
        \<and> tw_commentsCount tw' = Some 1
        \<and> comments g' =
            comments G_tweet @ [(next_id G_tweet, new_comment E0 ''c1'' (js ''nice'') ''u2'' None)]
        \<and> c_authorId (new_comment E0 ''c1'' (js ''nice'') ''u2'' None) = ''u2''
        \<and> edges g' = edges G_tweet @ [mk_edge 5 1 POSTED 4 DvAbsent,
                                        mk_edge 6 4 COMMENTS_ON 2 DvAbsent])
   \<and> commentOnTweet E0 (\<lambda>k. ''c1'') (\<lambda>k. if k = 1 then Some (Error ''ServiceUnavailable'') else None)
        (js ''nice'') ''u2'' ''t1'' G_tweet =
       (G_tweet, Inl (ApolloError ''Failed to execute database operation'' (Some ''DATABASE_ERROR'')
                       (Some (ApolloError ''Failed to create comment''
                                (Some ''COMMENT_CREATION_ERROR'')
                                (Some (Error ''ServiceUnavailable''))))))"
proof -
  have a: "users_by_id G_tweet ''u2'' = [(1, mk_user ''u2'' ''bob'')]"
    by (simp add: users_by_id_def G_tweet_def G_users_def mk_user_def)
  have b: "tweets_by_id G_tweet ''t1'' = [(2, new_tweet E0 ''t1'' (js ''hello'') [] ''u1'')]"
    by (simp add: tweets_by_id_def G_tweet_def G_users_def new_tweet_def)
  have c: "posters G_tweet 2 = [mk_user ''u1'' ''alice'']"
    by (simp add: posters_def rels_def G_tweet_def G_users_def mk_edge_def)
  have d: "nullish (t_commentsCount (new_tweet E0 ''t1'' (js ''hello'') [] ''u1'')) 0 + 1 = 1"
    by (simp add: new_tweet_def nullish_def)
  have n: "next_id G_tweet = 4"
    by (simp add: G_tweet_def)
  from commentOnTweet_effect[OF wf_G_tweet a b c, of "\<lambda>k. None" E0 "\<lambda>k. ''c1''" "js ''nice''"]
  obtain g' tw' where
    "commentOnTweet E0 (\<lambda>k. ''c1'') (\<lambda>k. None) (js ''nice'') ''u2'' ''t1'' G_tweet
        = (g', Inr (Some tw'))
        \<and> fetchTweet E0 ''t1'' g' = Inr (Some tw')
        \<and> tw_commentsCount tw' = Some 1
        \<and> comments g' =
            comments G_tweet @ [(next_id G_tweet, new_comment E0 ''c1'' (js ''nice'') ''u2'' None)]
        \<and> c_authorId (new_comment E0 ''c1'' (js ''nice'') ''u2'' None) = ''u2''
        \<and> edges g' = edges G_tweet @ [mk_edge 5 1 POSTED 4 DvAbsent,
                                        mk_edge 6 4 COMMENTS_ON 2 DvAbsent]"
    unfolding d n mk_edge_def by auto
  moreover
  from commentOnTweet_effect[OF wf_G_tweet a b c,
      of "\<lambda>k. if k = 1 then Some (Error ''ServiceUnavailable'') else None" E0 "\<lambda>k. ''c1''"
         "js ''nice''"]
  have "commentOnTweet E0 (\<lambda>k. ''c1'') (\<lambda>k. if k = 1 then Some (Error ''ServiceUnavailable'') else None)
        (js ''nice'') ''u2'' ''t1'' G_tweet =
       (G_tweet, Inl (ApolloError ''Failed to execute database operation'' (Some ''DATABASE_ERROR'')
                       (Some (ApolloError ''Failed to create comment''
                                (Some ''COMMENT_CREATION_ERROR'')
                                (Some (Error ''ServiceUnavailable''))))))"
    by simp
  ultimately show ?thesis
    using wf_G_tweet a b c by blast
qed

text \<open>
  C7. The inputs are valid: the text is not blank (\<open>createTweet\<close> rejects a text that
  \<open>trim\<close> empties), the media list is any, the author id is the id of exactly one User
  node, and the new id is the id of no tweet yet. Then \<open>createTweet\<close> returns a tweet that
  \<open>fetchTweet\<close> of its id returns again, with the text, the media and the author id given
  and the three counters 0.
\<close>

theorem createTweet_then_fetchTweet:
  assumes wf: "wf_store g" and nonblank: "trim text \<noteq> []"
    and usr: "users_by_id g authorId = [(un, u)]"
    and fresh: "tweets_by_id g (rand 0) = []"
  shows "\<exists>g' tw. createTweet E rand text media authorId g = (g', Inr tw)
    \<and> tw_id tw = rand 0 \<and> fetchTweet E (tw_id tw) g' = Inr (Some tw)
    \<and> tw_text tw = text \<and> tw_media tw = media \<and> tw_authorId tw = authorId
    \<and> tw_likesCount tw = Some 0 \<and> tw_commentsCount tw = Some 0
    \<and> tw_retweetsCount tw = Some 0"
proof -
  define t where "t = new_tweet E (rand 0) text media authorId"
  define e where "e = \<lparr>e_id = next_id g + 1, e_src = un, e_rel = POSTED, e_dst = next_id g,
                         e_createdAt = DvAbsent\<rparr>"
  define g1 where "g1 = g\<lparr>tweets := tweets g @ [(next_id g, t)], edges := edges g @ [e],
                          next_id := next_id g + 2\<rparr>"
  have tid: "t_id t = rand 0"
    by (simp add: t_def new_tweet_def)
  have stmt: "s_createTweet E rand text media authorId g = (g1, [(t, u)])"
    by (simp add: s_createTweet_def usr g1_def t_def e_def Let_def)
  have created: "createTweet E rand text media authorId g = (g1, Inr (mapTweet E t u))"
    by (simp add: createTweet_def nonblank stmt withSession_def executeWrite_def
        writeTransaction_def)
  have byid: "tweets_by_id g1 (rand 0) = [(next_id g, t)]"
    using fresh by (simp add: tweets_by_id_def g1_def tid)
  have "posters g1 (next_id g) = posters g (next_id g) @ posters (g\<lparr>edges := [e]\<rparr>) (next_id g)"
    by (rule posters_append) (simp_all add: g1_def)
  also have "\<dots> = [u]"
    using posters_fresh_node[OF wf] posters_new_posted[OF wf users_by_id_single[OF usr]]
    by (simp add: e_def)
  finally have post: "posters g1 (next_id g) = [u]" .
  have "q_fetchTweet g1 (rand 0) = [(t, u)]"
    by (simp add: q_fetchTweet_def byid post)
  then have fetched: "fetchTweet E (rand 0) g1 = Inr (Some (mapTweet E t u))"
    by (simp add: fetchTweet_def withSession_def)
  have fields: "tw_id (mapTweet E t u) = rand 0 \<and> tw_text (mapTweet E t u) = text
    \<and> tw_media (mapTweet E t u) = media \<and> tw_authorId (mapTweet E t u) = authorId
    \<and> tw_likesCount (mapTweet E t u) = Some 0 \<and> tw_commentsCount (mapTweet E t u) = Some 0
    \<and> tw_retweetsCount (mapTweet E t u) = Some 0"
    by (simp add: mapTweet_def t_def new_tweet_def nullish_def)
  from created fetched fields show ?thesis
    by (intro exI[of _ g1] exI[of _ "mapTweet E t u"]) simp
qed


theorem createTweet_then_fetchTweet_witness:
  "wf_store G_users \<and> trim (js ''hello'') \<noteq> []
   \<and> users_by_id G_users ''u1'' = [(0, mk_user ''u1'' ''alice'')]
   \<and> tweets_by_id G_users ''t1'' = []
   \<and> (\<exists>g' tw. createTweet E0 (\<lambda>k. ''t1'') (js ''hello'') [''a.png''] ''u1'' G_users = (g', Inr tw)
        \<and> tw_id tw = ''t1'' \<and> fetchTweet E0 (tw_id tw) g' = Inr (Some tw)
        \<and> tw_text tw = (js ''hello'') \<and> tw_media tw = [''a.png''] \<and> tw_authorId tw = ''u1''
        \<and> tw_likesCount tw = Some 0 \<and> tw_commentsCount tw = Some 0
        \<and> tw_retweetsCount tw = Some 0)"
proof -
  have a: "trim (js ''hello'') \<noteq> []"
    by (simp add: trim_def is_ws_def js_def)
  have b: "users_by_id G_users ''u1'' = [(0, mk_user ''u1'' ''alice'')]"
    by (simp add: users_by_id_def G_users_def mk_user_def)
  have c: "tweets_by_id G_users ((\<lambda>k. ''t1'') (0::nat)) = []"
    by (simp add: tweets_by_id_def G_users_def)
  from createTweet_then_fetchTweet[OF wf_G_users a b c, of E0 "[''a.png'']"] wf_G_users a b c
  show ?thesis by simp
qed

text \<open>
  C8. When \<open>deleteTweet\<close> succeeds, no Tweet node with the id is left, no relationship of the
  store starts or ends at a node that was such a tweet, and neither \<open>listTweets\<close> nor any
  \<open>listLikedTweets\<close> returns a tweet with the id.
\<close>

theorem deleteTweet_removes_tweet_and_edges:
  assumes "deleteTweet tweetId g = (g', Inr b)"
  shows "tweets_by_id g' tweetId = []
    \<and> list_all (\<lambda>r. e_src r \<notin> set (map fst (tweets_by_id g tweetId))
                    \<and> e_dst r \<notin> set (map fst (tweets_by_id g tweetId))) (edges g')
    \<and> (\<exists>ts. listTweets E g' = Inr ts \<and> tweetId \<notin> set (map tw_id ts))
    \<and> (\<exists>ts. listLikedTweets E userId g' = Inr ts \<and> tweetId \<notin> set (map tw_id ts))"
proof -
  let ?S = "set (map fst (tweets_by_id g tweetId))"
  let ?g1 = "s_deleteIncoming tweetId g"
  from assms have free: "\<not> list_ex (\<lambda>r. e_src r \<in> ?S \<or> e_dst r \<in> ?S) (edges ?g1)"
    and g': "g' = ?g1\<lparr>tweets := filter (\<lambda>(n, t). t_id t \<noteq> tweetId) (tweets g)\<rparr>"
    by (simp_all add: deleteTweet_eq split: if_splits)
  have tw: "tweets g' = filter (\<lambda>(n, t). t_id t \<noteq> tweetId) (tweets g)"
    and ed: "edges g' = edges ?g1"
    by (simp_all add: g')
  have 1: "tweets_by_id g' tweetId = []"
    by (auto simp: tweets_by_id_def tw filter_empty_conv)
  have 2: "list_all (\<lambda>r. e_src r \<notin> ?S \<and> e_dst r \<notin> ?S) (edges g')"
    using free by (auto simp: ed list_all_iff list_ex_iff)
  have none: "tweetId \<notin> t_id ` snd ` set (tweets g')"
    by (auto simp: tw)
  from listTweets_ids[of E g'] none
  have 3: "\<exists>ts. listTweets E g' = Inr ts \<and> tweetId \<notin> set (map tw_id ts)"
    by blast
  from listLikedTweets_ids[of E userId g'] none
  have 4: "\<exists>ts. listLikedTweets E userId g' = Inr ts \<and> tweetId \<notin> set (map tw_id ts)"
    by blast
  from 1 2 3 4 show ?thesis by blast
qed

text \<open>
  The witness: bob liked t1, so \<open>listLikedTweets\<close> of bob held t1; after \<open>deleteTweet\<close>
  the tweet, its POSTED and its LIKES_TWEET relationship are gone.
\<close>

theorem deleteTweet_removes_tweet_and_edges_witness:
  "deleteTweet ''t1'' G_liked = (G_users\<lparr>next_id := 5\<rparr>, Inr True)
   \<and> map tw_id (case listLikedTweets E0 ''u2'' G_liked of Inr ts \<Rightarrow> ts | Inl e \<Rightarrow> []) = [''t1'']
   \<and> tweets_by_id (G_users\<lparr>next_id := 5\<rparr>) ''t1'' = []
   \<and> (\<exists>ts. listTweets E0 (G_users\<lparr>next_id := 5\<rparr>) = Inr ts \<and> ''t1'' \<notin> set (map tw_id ts))
   \<and> (\<exists>ts. listLikedTweets E0 ''u2'' (G_users\<lparr>next_id := 5\<rparr>) = Inr ts
          \<and> ''t1'' \<notin> set (map tw_id ts))"
proof -
  have before: "map tw_id (case listLikedTweets E0 ''u2'' G_liked of Inr ts \<Rightarrow> ts | Inl e \<Rightarrow> [])
                  = [''t1'']"
    by code_simp
  from deleteTweet_removes_tweet_and_edges[OF G_liked_delete, of E0 "''u2''"] G_liked_delete before
  show ?thesis by simp
qed

text \<open>
  C9. In the store \<open>G_nodate\<close> the tweet has no \<open>createdAt\<close>. Each of the four list
  methods returns it with the invalid date as \<open>createdAt\<close>, where \<open>safeParseDate\<close> gives
  the current time; the same happens to its \<open>updatedAt\<close>, a text that does not parse.
\<close>

theorem list_methods_skip_safeParseDate:
  "listTweets E G_nodate = Inr [listItem E T_nodate (mk_user ''u1'' ''alice'')]
   \<and> listUserTweets E ''u1'' G_nodate = Inr [listItem E T_nodate (mk_user ''u1'' ''alice'')]
   \<and> listLikedTweets E ''u1'' G_nodate = Inr [listItem E T_nodate (mk_user ''u1'' ''alice'')]
   \<and> listTimelineTweets E ''u1'' G_nodate = Inr [listItem E T_nodate (mk_user ''u1'' ''alice'')]
   \<and> tw_createdAt (listItem E T_nodate (mk_user ''u1'' ''alice'')) = InvalidDate
   \<and> safeParseDate E (t_createdAt T_nodate) = js_now E
   \<and> tw_updatedAt (listItem E0 T_nodate (mk_user ''u1'' ''alice'')) = InvalidDate
   \<and> safeParseDate E0 (t_updatedAt T_nodate) = js_now E0"
  by code_simp



end
